theory Spec2Isabelle
  imports Main
begin

section \<open>The abstract session class of telethon/sessions/abstract.py\<close>

text \<open>
  The source file defines one class, \<open>Session\<close>, an abstract base class. Its concrete
  methods are \<open>__init__\<close>, \<open>clone\<close>, the class method \<open>list_sessions\<close>, and the two
  properties \<open>report_errors\<close> and \<open>flood_sleep_threshold\<close> with their setters. Every
  other method is abstract.

  The methods mutate objects that can be aliased (\<open>clone\<close> may be handed the session
  itself as its target), so objects live in a heap and are named by their address.
\<close>

subsection \<open>Python values, objects and the program state\<close>

text \<open>Python is dynamically typed: a flag can hold any value, and so can \<open>to_instance\<close>.\<close>

datatype pyval =
    PNone
  | PBool bool
  | PInt int
  | PStr string
  | PList "pyval list"
  | PRef nat

text \<open>
  \<open>AttributeError\<close> and \<open>TypeError\<close> are Python's own. \<open>InvalidRef\<close> is a reference to
  an address that holds no object: Python cannot produce one, the model has to say what
  happens there.
\<close>

datatype error = AttributeError | TypeError | NotImplementedError | InvalidRef

text \<open>An instance: its class (\<open>__class__\<close>, by name) and its attributes (\<open>__dict__\<close>).\<close>

record pyobj =
  cls :: string
  odict :: "string \<rightharpoonup> pyval"

text \<open>
  \<open>Session\<close> is abstract, so every instance belongs to a concrete subclass, and the
  subclasses are not part of this source file. What \<open>clone\<close> needs of a subclass is
  taken as a parameter, the class table:
  \<^item> \<open>cls_init\<close>: the outcome of calling the class with no argument, as
    \<open>self.__class__()\<close> does: an exception, or the attributes of the new instance;
  \<^item> \<open>cls_bool\<close>: the truth value of an instance, from its attributes. \<open>Session\<close>
    defines neither \<open>__bool__\<close> nor \<open>__len__\<close>, so an instance is true unless the
    subclass defines one of them.
  The methods below are those of \<open>Session\<close> itself: a subclass that overrides \<open>clone\<close>, a
  property or a setter replaces them, and is not modelled.
\<close>

record pyclass =
  cls_init :: "error + (string \<rightharpoonup> pyval)"
  cls_bool :: "(string \<rightharpoonup> pyval) \<Rightarrow> bool"

text \<open>
  The state of the program: the heap of objects (an address is an index, a new object goes
  to the end) and the disk, which is what \<open>save\<close> and \<open>delete\<close> of a backend act on
  according to their docstrings.
\<close>

record world =
  heap :: "pyobj list"
  disk :: "string \<rightharpoonup> string"

text \<open>A statement runs in a state and ends with a value or an exception, and a state.\<close>

type_synonym 'a py = "world \<Rightarrow> (error + 'a) \<times> world"

definition pyreturn :: "'a \<Rightarrow> 'a py" where
  "pyreturn x w = (Inr x, w)"

definition pybind :: "'a py \<Rightarrow> ('a \<Rightarrow> 'b py) \<Rightarrow> 'b py" where
  "pybind m f w = (case m w of (Inl e, w') \<Rightarrow> (Inl e, w') | (Inr x, w') \<Rightarrow> f x w')"

subsection \<open>Attribute access and truth values\<close>

text \<open>\<open>obj._name\<close>: only an object of the heap has instance attributes.\<close>

definition getattr :: "pyval \<Rightarrow> string \<Rightarrow> pyval py" where
  "getattr v name w =
     (case v of
        PRef a \<Rightarrow>
          if a < length (heap w) then
            (case odict (heap w ! a) name of
               Some x \<Rightarrow> (Inr x, w)
             | None \<Rightarrow> (Inl AttributeError, w))
          else (Inl InvalidRef, w)
      | _ \<Rightarrow> (Inl AttributeError, w))"

text \<open>\<open>obj._name = x\<close>: on \<open>None\<close>, a number, a string or a list it raises \<open>AttributeError\<close>.\<close>

definition setattr :: "pyval \<Rightarrow> string \<Rightarrow> pyval \<Rightarrow> pyval py" where
  "setattr v name x w =
     (case v of
        PRef a \<Rightarrow>
          if a < length (heap w) then
            (Inr PNone,
             w\<lparr>heap := (heap w)[a := (heap w ! a)\<lparr>odict := (odict (heap w ! a))(name \<mapsto> x)\<rparr>]\<rparr>)
          else (Inl InvalidRef, w)
      | _ \<Rightarrow> (Inl AttributeError, w))"

text \<open>
  Python's truth value, as \<open>or\<close> tests it. An address outside the heap counts as true, so
  that the use of the reference that follows reports it.
\<close>

fun truthy :: "(string \<Rightarrow> pyclass) \<Rightarrow> world \<Rightarrow> pyval \<Rightarrow> bool" where
  "truthy ct w PNone = False"
| "truthy ct w (PBool b) = b"
| "truthy ct w (PInt i) = (i \<noteq> 0)"
| "truthy ct w (PStr s) = (s \<noteq> [])"
| "truthy ct w (PList xs) = (xs \<noteq> [])"
| "truthy ct w (PRef a) =
     (if a < length (heap w) then cls_bool (ct (cls (heap w ! a))) (odict (heap w ! a))
      else True)"

text \<open>\<open>self.__class__\<close>\<close>

definition class_of :: "nat \<Rightarrow> string py" where
  "class_of self w =
     (if self < length (heap w) then (Inr (cls (heap w ! self)), w) else (Inl InvalidRef, w))"

text \<open>
  \<open>C()\<close> for a class \<open>C\<close> of the table: the new object takes the next address. The
  constructor of a subclass is taken to touch nothing but the instance it builds.
\<close>

definition instantiate :: "(string \<Rightarrow> pyclass) \<Rightarrow> string \<Rightarrow> pyval py" where
  "instantiate ct c w =
     (case cls_init (ct c) of
        Inl e \<Rightarrow> (Inl e, w)
      | Inr d \<Rightarrow> (Inr (PRef (length (heap w))), w\<lparr>heap := heap w @ [\<lparr>cls = c, odict = d\<rparr>]\<rparr>))"

subsection \<open>The methods of Session\<close>

text \<open>
  \<^verbatim>\<open>
  def __init__(self):
      self._report_errors = True
      self._flood_sleep_threshold = 60
  \<close>
\<close>

definition Session_init :: "nat \<Rightarrow> pyval py" where
  "Session_init self =
     pybind (setattr (PRef self) ''_report_errors'' (PBool True)) (\<lambda>_.
     setattr (PRef self) ''_flood_sleep_threshold'' (PInt 60))"

text \<open>The two properties: \<open>return self._report_errors\<close>, \<open>return self._flood_sleep_threshold\<close>.\<close>

definition report_errors :: "nat \<Rightarrow> pyval py" where
  "report_errors self = getattr (PRef self) ''_report_errors''"

definition flood_sleep_threshold :: "nat \<Rightarrow> pyval py" where
  "flood_sleep_threshold self = getattr (PRef self) ''_flood_sleep_threshold''"

text \<open>Their setters: \<open>self._report_errors = value\<close>, \<open>self._flood_sleep_threshold = value\<close>.\<close>

definition set_report_errors :: "nat \<Rightarrow> pyval \<Rightarrow> pyval py" where
  "set_report_errors self v = setattr (PRef self) ''_report_errors'' v"

definition set_flood_sleep_threshold :: "nat \<Rightarrow> pyval \<Rightarrow> pyval py" where
  "set_flood_sleep_threshold self v = setattr (PRef self) ''_flood_sleep_threshold'' v"

text \<open>
  \<^verbatim>\<open>
  def clone(self, to_instance=None):
      cloned = to_instance or self.__class__()
      cloned._report_errors = self.report_errors
      cloned._flood_sleep_threshold = self.flood_sleep_threshold
      return cloned
  \<close>
  \<open>a or b\<close> is \<open>a\<close> when \<open>a\<close> is true, and only otherwise evaluates \<open>b\<close>. In an assignment
  the right-hand side is evaluated first.
\<close>

definition clone :: "(string \<Rightarrow> pyclass) \<Rightarrow> nat \<Rightarrow> pyval \<Rightarrow> pyval py" where
  "clone ct self to_instance =
     pybind (\<lambda>w. if truthy ct w to_instance then pyreturn to_instance w
                 else pybind (class_of self) (instantiate ct) w) (\<lambda>cloned.
     pybind (report_errors self) (\<lambda>r.
     pybind (setattr cloned ''_report_errors'' r) (\<lambda>_.
     pybind (flood_sleep_threshold self) (\<lambda>t.
     pybind (setattr cloned ''_flood_sleep_threshold'' t) (\<lambda>_.
     pyreturn cloned)))))"

text \<open>
  \<^verbatim>\<open>
  @classmethod
  def list_sessions(cls):
      return []
  \<close>
\<close>

definition list_sessions :: "string \<Rightarrow> pyval py" where
  "list_sessions c = pyreturn (PList [])"

subsection \<open>Observations\<close>

text \<open>The object at an address, and one attribute of it; \<open>None\<close> where there is none.\<close>

definition obj_at :: "world \<Rightarrow> nat \<Rightarrow> pyobj option" where
  "obj_at w a = (if a < length (heap w) then Some (heap w ! a) else None)"

definition attr_of :: "world \<Rightarrow> nat \<Rightarrow> string \<Rightarrow> pyval option" where
  "attr_of w a name = (if a < length (heap w) then odict (heap w ! a) name else None)"

text \<open>A session is initialised when it has both flags, as after \<open>Session.__init__\<close>.\<close>

definition initialised :: "world \<Rightarrow> nat \<Rightarrow> bool" where
  "initialised w self =
     (attr_of w self ''_report_errors'' \<noteq> None \<and> attr_of w self ''_flood_sleep_threshold'' \<noteq> None)"

text \<open>
  The attributes of the object that \<open>clone\<close> writes into, as they are before it writes: those of
  a true target of the heap, or those of the instance that \<open>self.__class__()\<close> builds.
  \<open>None\<close> when there is no such object: the target is true and not an object, or the
  constructor raises.
\<close>

definition clone_base :: "(string \<Rightarrow> pyclass) \<Rightarrow> world \<Rightarrow> nat \<Rightarrow> pyval \<Rightarrow> (string \<rightharpoonup> pyval) option" where
  "clone_base ct w self to_instance =
     (if truthy ct w to_instance then
        (case to_instance of
           PRef a \<Rightarrow> if a < length (heap w) then Some (odict (heap w ! a)) else None
         | _ \<Rightarrow> None)
      else if self < length (heap w) then
        (case cls_init (ct (cls (heap w ! self))) of Inr d \<Rightarrow> Some d | Inl e \<Rightarrow> None)
      else None)"

subsection \<open>An example backend\<close>

text \<open>
  Modelled from the spec: the subclasses of \<open>Session\<close> are not in the source file, and the
  accessors of the data centre and of the authorisation key are abstract there. The
  theorems at concrete inputs use a backend that keeps DCInfo (\<open>dc_id\<close>, \<open>address\<close>,
  \<open>port\<close>), the AuthSecret and the entity cache in instance attributes, with no key and an
  empty cache in a new instance. \<open>CountingSession\<close> also defines \<open>__len__\<close> as the size of
  its entity cache, so an instance with an empty cache is false.
\<close>

definition backend_attrs :: "string \<rightharpoonup> pyval" where
  "backend_attrs =
     [''_report_errors'' \<mapsto> PBool True, ''_flood_sleep_threshold'' \<mapsto> PInt 60,
      ''_dc_id'' \<mapsto> PInt 0, ''_server_address'' \<mapsto> PNone, ''_port'' \<mapsto> PNone,
      ''_auth_key'' \<mapsto> PNone, ''_entities'' \<mapsto> PList []]"

definition example_ct :: "string \<Rightarrow> pyclass" where
  "example_ct c =
     (if c = ''CountingSession'' then
        \<lparr>cls_init = Inr backend_attrs, cls_bool = (\<lambda>d. d ''_entities'' \<noteq> Some (PList []))\<rparr>
      else \<lparr>cls_init = Inr backend_attrs, cls_bool = (\<lambda>d. True)\<rparr>)"

text \<open>
  Object 0 is a session that is connected and authorised, with both flags changed from
  their defaults; object 1 is a \<open>CountingSession\<close> with another key and an empty cache.
\<close>

definition example_world :: world where
  "example_world =
     \<lparr>heap =
        [\<lparr>cls = ''MemorySession'',
          odict = [''_report_errors'' \<mapsto> PBool False, ''_flood_sleep_threshold'' \<mapsto> PInt 30,
                   ''_dc_id'' \<mapsto> PInt 2, ''_server_address'' \<mapsto> PStr ''149.154.167.51'',
                   ''_port'' \<mapsto> PInt 443, ''_auth_key'' \<mapsto> PStr ''key-of-dc-2'',
                   ''_entities'' \<mapsto> PList [PInt 42]]\<rparr>,
         \<lparr>cls = ''CountingSession'',
          odict = [''_report_errors'' \<mapsto> PBool True, ''_flood_sleep_threshold'' \<mapsto> PInt 60,
                   ''_dc_id'' \<mapsto> PInt 4, ''_server_address'' \<mapsto> PStr ''149.154.167.91'',
                   ''_port'' \<mapsto> PInt 443, ''_auth_key'' \<mapsto> PStr ''key-of-dc-4'',
                   ''_entities'' \<mapsto> PList []]\<rparr>],
      disk = Map.empty\<rparr>"

section \<open>Properties\<close>

subsection \<open>Attribute access\<close>

lemma getattr_ref:
  "getattr (PRef a) name w =
     (if a < length (heap w) then
        (case odict (heap w ! a) name of Some x \<Rightarrow> (Inr x, w) | None \<Rightarrow> (Inl AttributeError, w))
      else (Inl InvalidRef, w))"
  by (simp add: getattr_def)

lemma setattr_ref:
  "setattr (PRef a) name x w =
     (if a < length (heap w) then
        (Inr PNone,
         w\<lparr>heap := (heap w)[a := (heap w ! a)\<lparr>odict := (odict (heap w ! a))(name \<mapsto> x)\<rparr>]\<rparr>)
      else (Inl InvalidRef, w))"
  by (simp add: setattr_def)

subsection \<open>What clone returns\<close>

lemma clone_truthy:
  assumes "self < length (heap w)"
    and "odict (heap w ! self) ''_report_errors'' = Some r"
    and "odict (heap w ! self) ''_flood_sleep_threshold'' = Some t"
    and "tgt < length (heap w)"
    and "truthy ct w (PRef tgt)"
  shows "clone ct self (PRef tgt) w =
           (Inr (PRef tgt),
            w\<lparr>heap := (heap w)[tgt := (heap w ! tgt)\<lparr>odict :=
                 (odict (heap w ! tgt))(''_report_errors'' \<mapsto> r, ''_flood_sleep_threshold'' \<mapsto> t)\<rparr>]\<rparr>)"
  using assms
  by (simp add: clone_def pybind_def pyreturn_def report_errors_def flood_sleep_threshold_def
        getattr_ref setattr_ref nth_list_update)

lemma clone_falsy:
  assumes "self < length (heap w)"
    and "odict (heap w ! self) ''_report_errors'' = Some r"
    and "odict (heap w ! self) ''_flood_sleep_threshold'' = Some t"
    and "\<not> truthy ct w v"
    and "cls_init (ct (cls (heap w ! self))) = Inr d"
  shows "clone ct self v w =
           (Inr (PRef (length (heap w))),
            w\<lparr>heap := heap w @ [\<lparr>cls = cls (heap w ! self),
                 odict = d(''_report_errors'' \<mapsto> r, ''_flood_sleep_threshold'' \<mapsto> t)\<rparr>]\<rparr>)"
  using assms
  by (simp add: clone_def pybind_def pyreturn_def report_errors_def flood_sleep_threshold_def
        getattr_ref setattr_ref class_of_def instantiate_def nth_append)

lemma initialised_flags:
  assumes "initialised w self"
  obtains r t where "self < length (heap w)"
    and "odict (heap w ! self) ''_report_errors'' = Some r"
    and "odict (heap w ! self) ''_flood_sleep_threshold'' = Some t"
  using assms by (auto simp add: initialised_def attr_of_def split: if_splits)

lemma clone_result:
  assumes "initialised w self" and "clone_base ct w self v = Some d"
  shows "\<exists>c w'. clone ct self v w = (Inr (PRef c), w') \<and>
           c < length (heap w') \<and>
           odict (heap w' ! c) = d(''_report_errors'' := odict (heap w ! self) ''_report_errors'',
                                   ''_flood_sleep_threshold'' := odict (heap w ! self) ''_flood_sleep_threshold'') \<and>
           (\<forall>a. a \<noteq> c \<longrightarrow> obj_at w' a = obj_at w a) \<and>
           disk w' = disk w \<and>
           (if truthy ct w v then v = PRef c \<and> length (heap w') = length (heap w) \<and> cls (heap w' ! c) = cls (heap w ! c)
            else c = length (heap w) \<and> length (heap w') = Suc (length (heap w)) \<and> cls (heap w' ! c) = cls (heap w ! self))"
proof -
  from assms(1) obtain r t where self: "self < length (heap w)"
    and r: "odict (heap w ! self) ''_report_errors'' = Some r"
    and t: "odict (heap w ! self) ''_flood_sleep_threshold'' = Some t"
    by (rule initialised_flags)
  show ?thesis
  proof (cases "truthy ct w v")
    case True
    with assms(2) obtain a where v: "v = PRef a" and a: "a < length (heap w)"
      and d: "d = odict (heap w ! a)"
      by (auto simp add: clone_base_def split: pyval.splits if_splits)
    from True v have "truthy ct w (PRef a)" by simp
    from clone_truthy [OF self r t a this] True v a d r t show ?thesis
      by (auto simp add: obj_at_def nth_list_update)
  next
    case False
    with assms(2) self have d: "cls_init (ct (cls (heap w ! self))) = Inr d"
      by (auto simp add: clone_base_def split: sum.splits)
    from clone_falsy [OF self r t False d] False r t show ?thesis
      by (auto simp add: obj_at_def nth_append)
  qed
qed

subsection \<open>The example backend, evaluated\<close>

lemma example_heap_length: "length (heap example_world) = 2"
  by (simp add: example_world_def)

lemma example_initialised: "initialised example_world 0"
  by (simp add: initialised_def attr_of_def example_world_def)

lemma example_target_falsy: "\<not> truthy example_ct example_world (PRef 1)"
  by (simp add: example_world_def example_ct_def)

lemma example_target_truthy: "truthy example_ct example_world (PRef 0)"
  by (simp add: example_world_def example_ct_def)

lemma example_clone_base_none: "clone_base example_ct example_world 0 PNone = Some backend_attrs"
  by (simp add: clone_base_def example_world_def example_ct_def)

lemma example_clone_none:
  "clone example_ct 0 PNone example_world =
     (Inr (PRef 2),
      example_world\<lparr>heap := heap example_world @
        [\<lparr>cls = ''MemorySession'',
          odict = backend_attrs(''_report_errors'' \<mapsto> PBool False, ''_flood_sleep_threshold'' \<mapsto> PInt 30)\<rparr>]\<rparr>)"
proof -
  have "clone example_ct 0 PNone example_world =
     (Inr (PRef (length (heap example_world))),
      example_world\<lparr>heap := heap example_world @
        [\<lparr>cls = cls (heap example_world ! 0),
          odict = backend_attrs(''_report_errors'' \<mapsto> PBool False, ''_flood_sleep_threshold'' \<mapsto> PInt 30)\<rparr>]\<rparr>)"
    by (rule clone_falsy) (simp_all add: example_world_def example_ct_def)
  then show ?thesis by (simp add: example_world_def)
qed

lemma example_ctor: "cls_init (example_ct (cls (heap example_world ! 0))) = Inr backend_attrs"
  by (simp add: example_world_def example_ct_def)

lemma example_clone_falsy_target:
  "clone example_ct 0 (PRef 1) example_world =
     (Inr (PRef 2),
      example_world\<lparr>heap := heap example_world @
        [\<lparr>cls = ''MemorySession'',
          odict = backend_attrs(''_report_errors'' \<mapsto> PBool False, ''_flood_sleep_threshold'' \<mapsto> PInt 30)\<rparr>]\<rparr>)"
proof -
  have "clone example_ct 0 (PRef 1) example_world =
     (Inr (PRef (length (heap example_world))),
      example_world\<lparr>heap := heap example_world @
        [\<lparr>cls = cls (heap example_world ! 0),
          odict = backend_attrs(''_report_errors'' \<mapsto> PBool False, ''_flood_sleep_threshold'' \<mapsto> PInt 30)\<rparr>]\<rparr>)"
    by (rule clone_falsy) (simp_all add: example_world_def example_ct_def)
  then show ?thesis by (simp add: example_world_def)
qed

section \<open>The claims\<close>

subsection \<open>C1: what a clone shares with its source\<close>

text \<open>
  C1, as stated: for every session \<open>s\<close>, \<open>clone(s, target)\<close> produces a session whose
  DCInfo, AuthSecret and flags equal those of \<open>s\<close>. This fails for the clone of this class:
  the session at address 0 holds the key of data centre 2, its clone is the new object at
  address 2, and the clone has no key.
\<close>

theorem clone_drops_auth_key_counterexample:
  "fst (clone example_ct 0 PNone example_world) = Inr (PRef 2) \<and>
   attr_of (snd (clone example_ct 0 PNone example_world)) 2 ''_auth_key''
     \<noteq> attr_of example_world 0 ''_auth_key''"
  unfolding example_clone_none
  by (simp add: attr_of_def example_world_def backend_attrs_def)

text \<open>
  C1, amended: for every initialised session \<open>s\<close> and every target that \<open>clone\<close> can write
  into (a true object, or a false value with a constructor that returns), \<open>clone\<close>
  returns a session whose \<open>report_errors\<close> and \<open>flood_sleep_threshold\<close> read the same as those
  of \<open>s\<close>; every other attribute of the result, so DCInfo, AuthSecret and the caches of a
  backend that keeps them in attributes, is not copied: it is what the target or the new
  instance had.
\<close>

theorem clone_copies_flags_only:
  assumes "initialised w self" and "clone_base ct w self v = Some d"
  shows "\<exists>c w'. clone ct self v w = (Inr (PRef c), w') \<and>
           (\<exists>r. fst (report_errors self w) = Inr r \<and> fst (report_errors c w') = Inr r) \<and>
           (\<exists>t. fst (flood_sleep_threshold self w) = Inr t \<and>
                fst (flood_sleep_threshold c w') = Inr t) \<and>
           (\<forall>k. k \<noteq> ''_report_errors'' \<and> k \<noteq> ''_flood_sleep_threshold'' \<longrightarrow>
                attr_of w' c k = d k)"
proof -
  from assms(1) obtain r t where self: "self < length (heap w)"
    and r: "odict (heap w ! self) ''_report_errors'' = Some r"
    and t: "odict (heap w ! self) ''_flood_sleep_threshold'' = Some t"
    by (rule initialised_flags)
  from clone_result [OF assms] obtain c w' where
    c: "clone ct self v w = (Inr (PRef c), w')" "c < length (heap w')"
    and d: "odict (heap w' ! c) =
              d(''_report_errors'' := odict (heap w ! self) ''_report_errors'',
                ''_flood_sleep_threshold'' := odict (heap w ! self) ''_flood_sleep_threshold'')"
    by blast
  have "fst (report_errors self w) = Inr r \<and> fst (report_errors c w') = Inr r"
    using self r c(2) d by (simp add: report_errors_def getattr_ref)
  moreover have "fst (flood_sleep_threshold self w) = Inr t \<and>
      fst (flood_sleep_threshold c w') = Inr t"
    using self t c(2) d by (simp add: flood_sleep_threshold_def getattr_ref)
  moreover have "\<forall>k. k \<noteq> ''_report_errors'' \<and> k \<noteq> ''_flood_sleep_threshold'' \<longrightarrow>
      attr_of w' c k = d k"
    using c(2) d by (simp add: attr_of_def)
  ultimately show ?thesis using c(1) by blast
qed

theorem clone_copies_flags_only_witness:
  "initialised example_world 0 \<and>
   clone_base example_ct example_world 0 PNone = Some backend_attrs \<and>
   (\<exists>c w'. clone example_ct 0 PNone example_world = (Inr (PRef c), w') \<and>
      fst (report_errors c w') = Inr (PBool False) \<and>
      fst (flood_sleep_threshold c w') = Inr (PInt 30) \<and>
      attr_of w' c ''_auth_key'' = Some PNone \<and>
      attr_of w' c ''_entities'' = Some (PList []))"
proof -
  have flags: "fst (report_errors 0 example_world) = Inr (PBool False)"
    "fst (flood_sleep_threshold 0 example_world) = Inr (PInt 30)"
    by (simp_all add: report_errors_def flood_sleep_threshold_def getattr_ref example_world_def)
  have attrs: "backend_attrs ''_auth_key'' = Some PNone"
    "backend_attrs ''_entities'' = Some (PList [])"
    by (simp_all add: backend_attrs_def)
  from clone_copies_flags_only [OF example_initialised example_clone_base_none]
  show ?thesis
    using example_initialised example_clone_base_none flags attrs by fastforce
qed

subsection \<open>C3: the base class copies the two flags and nothing else\<close>

text \<open>
  C3: the clone of the shared base class copies exactly \<open>report_errors\<close> and
  \<open>flood_sleep_threshold\<close> from the source to the clone and no other state. For an
  initialised session and a target that \<open>clone\<close> can write into, the two flag attributes of
  the result are those of the source, every other attribute of the result is what the
  target or the new instance had, every other object of the heap is as it was, and so is the
  disk.
\<close>

theorem clone_copies_exactly_two_flags:
  assumes "initialised w self" and "clone_base ct w self v = Some d"
  shows "\<exists>c w'. clone ct self v w = (Inr (PRef c), w') \<and>
           attr_of w' c ''_report_errors'' = attr_of w self ''_report_errors'' \<and>
           attr_of w' c ''_flood_sleep_threshold'' = attr_of w self ''_flood_sleep_threshold'' \<and>
           (\<forall>k. k \<noteq> ''_report_errors'' \<longrightarrow> k \<noteq> ''_flood_sleep_threshold'' \<longrightarrow>
                attr_of w' c k = d k) \<and>
           (\<forall>a. a \<noteq> c \<longrightarrow> obj_at w' a = obj_at w a) \<and>
           disk w' = disk w"
proof -
  from assms(1) have self: "self < length (heap w)"
    by (rule initialised_flags)
  from clone_result [OF assms] obtain c w' where
    c: "clone ct self v w = (Inr (PRef c), w')" "c < length (heap w')"
    and d: "odict (heap w' ! c) =
              d(''_report_errors'' := odict (heap w ! self) ''_report_errors'',
                ''_flood_sleep_threshold'' := odict (heap w ! self) ''_flood_sleep_threshold'')"
    and rest: "\<forall>a. a \<noteq> c \<longrightarrow> obj_at w' a = obj_at w a" "disk w' = disk w"
    by blast
  have "attr_of w' c ''_report_errors'' = attr_of w self ''_report_errors''"
    "attr_of w' c ''_flood_sleep_threshold'' = attr_of w self ''_flood_sleep_threshold''"
    "\<forall>k. k \<noteq> ''_report_errors'' \<longrightarrow> k \<noteq> ''_flood_sleep_threshold'' \<longrightarrow> attr_of w' c k = d k"
    using self c(2) d by (simp_all add: attr_of_def)
  with c(1) rest show ?thesis by blast
qed

theorem clone_copies_exactly_two_flags_witness:
  "initialised example_world 0 \<and>
   clone_base example_ct example_world 0 PNone = Some backend_attrs \<and>
   (\<exists>c w'. clone example_ct 0 PNone example_world = (Inr (PRef c), w') \<and>
      attr_of w' c ''_report_errors'' = Some (PBool False) \<and>
      attr_of w' c ''_flood_sleep_threshold'' = Some (PInt 30) \<and>
      attr_of w' c ''_dc_id'' = Some (PInt 0) \<and>
      attr_of w' c ''_server_address'' = Some PNone \<and>
      attr_of w' c ''_port'' = Some PNone \<and>
      disk w' = Map.empty)"
proof -
  have flags: "attr_of example_world 0 ''_report_errors'' = Some (PBool False)"
    "attr_of example_world 0 ''_flood_sleep_threshold'' = Some (PInt 30)"
    by (simp_all add: attr_of_def example_world_def)
  have attrs: "backend_attrs ''_dc_id'' = Some (PInt 0)"
    "backend_attrs ''_server_address'' = Some PNone"
    "backend_attrs ''_port'' = Some PNone"
    by (simp_all add: backend_attrs_def)
  have disk: "disk example_world = Map.empty"
    by (simp add: example_world_def)
  from clone_copies_exactly_two_flags [OF example_initialised example_clone_base_none]
  show ?thesis
    using example_initialised example_clone_base_none flags attrs disk by fastforce
qed

subsection \<open>C4: the defaults\<close>

text \<open>
  C4: after \<open>Session.__init__\<close> has run on an object, its \<open>report_errors\<close> is \<open>True\<close> and its
  \<open>flood_sleep_threshold\<close> is 60, whatever the object held before.
\<close>

theorem session_init_defaults:
  assumes "self < length (heap w)"
  shows "fst (Session_init self w) = Inr PNone \<and>
         fst (report_errors self (snd (Session_init self w))) = Inr (PBool True) \<and>
         fst (flood_sleep_threshold self (snd (Session_init self w))) = Inr (PInt 60)"
  using assms
  by (simp add: Session_init_def pybind_def report_errors_def flood_sleep_threshold_def
      getattr_ref setattr_ref)

theorem session_init_defaults_witness:
  "0 < length (heap example_world) \<and>
   fst (report_errors 0 example_world) = Inr (PBool False) \<and>
   fst (flood_sleep_threshold 0 example_world) = Inr (PInt 30) \<and>
   fst (Session_init 0 example_world) = Inr PNone \<and>
   fst (report_errors 0 (snd (Session_init 0 example_world))) = Inr (PBool True) \<and>
   fst (flood_sleep_threshold 0 (snd (Session_init 0 example_world))) = Inr (PInt 60)"
proof -
  have len: "0 < length (heap example_world)"
    by (simp add: example_heap_length)
  have before: "fst (report_errors 0 example_world) = Inr (PBool False)"
    "fst (flood_sleep_threshold 0 example_world) = Inr (PInt 30)"
    by (simp_all add: report_errors_def flood_sleep_threshold_def getattr_ref example_world_def)
  from session_init_defaults [OF len] len before show ?thesis by simp
qed

subsection \<open>C5: the flag setters and getters\<close>

text \<open>
  C5: for every session and every value \<open>v\<close>, setting \<open>report_errors\<close> to \<open>v\<close> and reading it
  returns \<open>v\<close>, and likewise for \<open>flood_sleep_threshold\<close>; the setters return normally and
  leave the disk as it was.
\<close>

theorem flag_set_then_get:
  assumes "self < length (heap w)"
  shows "fst (set_report_errors self v w) = Inr PNone \<and>
         fst (report_errors self (snd (set_report_errors self v w))) = Inr v \<and>
         disk (snd (set_report_errors self v w)) = disk w \<and>
         fst (set_flood_sleep_threshold self v w) = Inr PNone \<and>
         fst (flood_sleep_threshold self (snd (set_flood_sleep_threshold self v w))) = Inr v \<and>
         disk (snd (set_flood_sleep_threshold self v w)) = disk w"
  using assms
  by (simp add: set_report_errors_def set_flood_sleep_threshold_def report_errors_def
      flood_sleep_threshold_def getattr_ref setattr_ref)

theorem flag_set_then_get_witness:
  "0 < length (heap example_world) \<and>
   fst (report_errors 0 (snd (set_report_errors 0 (PStr ''yes'') example_world))) = Inr (PStr ''yes'') \<and>
   fst (flood_sleep_threshold 0 (snd (set_flood_sleep_threshold 0 (PInt 5) example_world))) = Inr (PInt 5) \<and>
   disk (snd (set_report_errors 0 (PStr ''yes'') example_world)) = Map.empty \<and>
   disk (snd (set_flood_sleep_threshold 0 (PInt 5) example_world)) = Map.empty"
proof -
  have len: "0 < length (heap example_world)"
    by (simp add: example_heap_length)
  have disk: "disk example_world = Map.empty"
    by (simp add: example_world_def)
  from flag_set_then_get [OF len, of "PStr ''yes''"] flag_set_then_get [OF len, of "PInt 5"]
    len disk show ?thesis by simp
qed

subsection \<open>C6: which object clone returns\<close>

text \<open>
  C6, as stated: when a target instance is provided, \<open>clone\<close> returns that same instance and
  not a new object. This fails for a target instance that is false: object 1 is a session
  whose class defines \<open>__len__\<close> and whose cache is empty, and \<open>clone\<close> with this target does not
  return it.
\<close>

theorem clone_falsy_session_target_counterexample:
  "fst (clone example_ct 0 (PRef 1) example_world) \<noteq> Inr (PRef 1)"
  unfolding example_clone_falsy_target by simp

text \<open>
  C6, amended: for an initialised session, \<open>clone\<close> with no target returns a new instance
  (at an address that held no object) of the class of the source, when the constructor of
  that class returns; with a target instance that is true, \<open>clone\<close> returns that same
  instance, and the heap has no new object.
\<close>

theorem clone_fresh_or_true_target:
  assumes "initialised w self"
  shows "(cls_init (ct (cls (heap w ! self))) = Inr d \<longrightarrow>
           (\<exists>w'. clone ct self PNone w = (Inr (PRef (length (heap w))), w') \<and>
                 obj_at w (length (heap w)) = None \<and>
                 length (heap w') = Suc (length (heap w)) \<and>
                 cls (heap w' ! length (heap w)) = cls (heap w ! self))) \<and>
         (a < length (heap w) \<and> truthy ct w (PRef a) \<longrightarrow>
           (\<exists>w'. clone ct self (PRef a) w = (Inr (PRef a), w') \<and>
                 length (heap w') = length (heap w) \<and>
                 cls (heap w' ! a) = cls (heap w ! a)))"
proof -
  from assms obtain r t where self: "self < length (heap w)"
    and r: "odict (heap w ! self) ''_report_errors'' = Some r"
    and t: "odict (heap w ! self) ''_flood_sleep_threshold'' = Some t"
    by (rule initialised_flags)
  have none: "\<not> truthy ct w PNone" by simp
  have "cls_init (ct (cls (heap w ! self))) = Inr d \<Longrightarrow>
      \<exists>w'. clone ct self PNone w = (Inr (PRef (length (heap w))), w') \<and>
            obj_at w (length (heap w)) = None \<and>
            length (heap w') = Suc (length (heap w)) \<and>
            cls (heap w' ! length (heap w)) = cls (heap w ! self)"
    using clone_falsy [OF self r t none] by (simp add: obj_at_def)
  moreover have "a < length (heap w) \<Longrightarrow> truthy ct w (PRef a) \<Longrightarrow>
      \<exists>w'. clone ct self (PRef a) w = (Inr (PRef a), w') \<and>
            length (heap w') = length (heap w) \<and> cls (heap w' ! a) = cls (heap w ! a)"
    using clone_truthy [OF self r t] by simp
  ultimately show ?thesis by blast
qed

theorem clone_fresh_or_true_target_witness:
  "initialised example_world 0 \<and>
   cls_init (example_ct (cls (heap example_world ! 0))) = Inr backend_attrs \<and>
   (\<exists>w'. clone example_ct 0 PNone example_world = (Inr (PRef 2), w') \<and>
         length (heap w') = 3 \<and> cls (heap w' ! 2) = ''MemorySession'') \<and>
   0 < length (heap example_world) \<and> truthy example_ct example_world (PRef 0) \<and>
   (\<exists>w'. clone example_ct 0 (PRef 0) example_world = (Inr (PRef 0), w') \<and>
         length (heap w') = 2)"
proof -
  have len: "length (heap example_world) = 2" by (rule example_heap_length)
  have c: "cls (heap example_world ! 0) = ''MemorySession''"
    by (simp add: example_world_def)
  from clone_fresh_or_true_target [OF example_initialised, of example_ct backend_attrs 0]
  show ?thesis
    using example_initialised example_ctor example_target_truthy len c by auto
qed

subsection \<open>C7: list_sessions\<close>

text \<open>
  C7: \<open>list_sessions\<close> of the base class returns the empty list for every class, and no other
  operation needs it: it leaves the state as it was, so each of the other methods does the
  same after a call of \<open>list_sessions\<close> as without one.
\<close>

theorem list_sessions_empty:
  "list_sessions c w = (Inr (PList []), w) \<and>
   clone ct self v (snd (list_sessions c w)) = clone ct self v w \<and>
   Session_init self (snd (list_sessions c w)) = Session_init self w \<and>
   report_errors self (snd (list_sessions c w)) = report_errors self w \<and>
   flood_sleep_threshold self (snd (list_sessions c w)) = flood_sleep_threshold self w \<and>
   set_report_errors self v (snd (list_sessions c w)) = set_report_errors self v w \<and>
   set_flood_sleep_threshold self v (snd (list_sessions c w)) = set_flood_sleep_threshold self v w"
  by (simp add: list_sessions_def pyreturn_def)

subsection \<open>C8: a false target counts as no target\<close>

text \<open>
  C8: with a target that is false (\<open>None\<close>, \<open>False\<close>, \<open>0\<close>, an empty string or list, or a
  session object that is false), \<open>clone\<close> does exactly what it does with \<open>None\<close>; for an
  initialised session whose class can be constructed it returns a new instance of the
  class of the source, which is not the target, and no object that was in the heap, the
  target among them, is written.
\<close>

theorem clone_falsy_target_is_absent:
  assumes "\<not> truthy ct w v"
  shows "clone ct self v w = clone ct self PNone w \<and>
         (initialised w self \<and> cls_init (ct (cls (heap w ! self))) = Inr d \<longrightarrow>
           (\<exists>w'. clone ct self v w = (Inr (PRef (length (heap w))), w') \<and>
                 v \<noteq> PRef (length (heap w)) \<and>
                 cls (heap w' ! length (heap w)) = cls (heap w ! self) \<and>
                 (\<forall>a. a < length (heap w) \<longrightarrow> obj_at w' a = obj_at w a)))"
proof -
  have same: "clone ct self v w = clone ct self PNone w"
    using assms by (simp add: clone_def pybind_def)
  have fresh: "v \<noteq> PRef (length (heap w))"
    using assms by auto
  have "\<exists>w'. clone ct self v w = (Inr (PRef (length (heap w))), w') \<and>
              v \<noteq> PRef (length (heap w)) \<and>
              cls (heap w' ! length (heap w)) = cls (heap w ! self) \<and>
              (\<forall>a. a < length (heap w) \<longrightarrow> obj_at w' a = obj_at w a)"
    if init: "initialised w self" and d: "cls_init (ct (cls (heap w ! self))) = Inr d"
  proof -
    from init obtain r t where self: "self < length (heap w)"
      and r: "odict (heap w ! self) ''_report_errors'' = Some r"
      and t: "odict (heap w ! self) ''_flood_sleep_threshold'' = Some t"
      by (rule initialised_flags)
    from clone_falsy [OF self r t assms d] fresh show ?thesis
      by (simp add: obj_at_def nth_append)
  qed
  with same show ?thesis by blast
qed

theorem clone_falsy_target_is_absent_witness:
  "\<not> truthy example_ct example_world (PRef 1) \<and>
   \<not> truthy example_ct example_world (PBool False) \<and>
   \<not> truthy example_ct example_world (PInt 0) \<and>
   clone example_ct 0 (PRef 1) example_world = clone example_ct 0 PNone example_world \<and>
   clone example_ct 0 (PBool False) example_world = clone example_ct 0 PNone example_world \<and>
   clone example_ct 0 (PInt 0) example_world = clone example_ct 0 PNone example_world \<and>
   (\<exists>w'. clone example_ct 0 (PRef 1) example_world = (Inr (PRef 2), w') \<and>
         cls (heap w' ! 2) = ''MemorySession'' \<and>
         obj_at w' 1 = obj_at example_world 1)"
proof -
  have len: "length (heap example_world) = 2" by (rule example_heap_length)
  have c: "cls (heap example_world ! 0) = ''MemorySession''"
    by (simp add: example_world_def)
  have f: "\<not> truthy example_ct example_world (PBool False)"
    "\<not> truthy example_ct example_world (PInt 0)"
    by simp_all
  note t1 = clone_falsy_target_is_absent [OF example_target_falsy, of 0 backend_attrs]
  from t1 have same: "clone example_ct 0 (PRef 1) example_world = clone example_ct 0 PNone example_world"
    by (rule conjunct1)
  from t1 example_initialised example_ctor obtain w' where
    w': "clone example_ct 0 (PRef 1) example_world = (Inr (PRef (length (heap example_world))), w')"
      "cls (heap w' ! length (heap example_world)) = cls (heap example_world ! 0)"
      "\<forall>a. a < length (heap example_world) \<longrightarrow> obj_at w' a = obj_at example_world a"
    by blast
  from w' have "clone example_ct 0 (PRef 1) example_world = (Inr (PRef 2), w') \<and>
      cls (heap w' ! 2) = ''MemorySession'' \<and> obj_at w' 1 = obj_at example_world 1"
    by (simp add: len c)
  then have ex: "\<exists>w'. clone example_ct 0 (PRef 1) example_world = (Inr (PRef 2), w') \<and>
      cls (heap w' ! 2) = ''MemorySession'' \<and> obj_at w' 1 = obj_at example_world 1"
    by blast
  from clone_falsy_target_is_absent [OF f(1), of 0 backend_attrs]
  have s2: "clone example_ct 0 (PBool False) example_world = clone example_ct 0 PNone example_world"
    by (rule conjunct1)
  from clone_falsy_target_is_absent [OF f(2), of 0 backend_attrs]
  have s3: "clone example_ct 0 (PInt 0) example_world = clone example_ct 0 PNone example_world"
    by (rule conjunct1)
  from example_target_falsy f same s2 s3 ex show ?thesis by blast
qed

subsection \<open>C9: clone does not change its source\<close>

text \<open>
  C9: for every session \<open>s\<close> and every target, the object \<open>s\<close> (its class and all its
  attributes) is the same after \<open>clone(s, target)\<close> as before, whether \<open>clone\<close> returns or
  raises, and also when the target is \<open>s\<close> itself.
\<close>

theorem clone_leaves_source_unchanged:
  "obj_at (snd (clone ct self v w)) self = obj_at w self"
proof (cases "truthy ct w v")
  case True
  then show ?thesis
    by (cases v)
      (auto simp add: clone_def pybind_def pyreturn_def report_errors_def
        flood_sleep_threshold_def getattr_ref setattr_def obj_at_def nth_list_update
        map_upd_triv split: option.splits if_splits)
next
  case False
  then show ?thesis
    by (auto simp add: clone_def pybind_def pyreturn_def report_errors_def
        flood_sleep_threshold_def getattr_ref setattr_ref class_of_def instantiate_def
        obj_at_def nth_append split: option.splits sum.splits if_splits)
qed

subsection \<open>C10: each setter writes its own flag only\<close>

text \<open>
  C10: setting \<open>report_errors\<close> leaves \<open>flood_sleep_threshold\<close> as it was, setting
  \<open>flood_sleep_threshold\<close> leaves \<open>report_errors\<close> as it was, and each setter leaves every
  attribute of the session other than its own, and the class of the session, as they were.
\<close>

theorem flag_setters_frame:
  "fst (flood_sleep_threshold self (snd (set_report_errors self v w)))
     = fst (flood_sleep_threshold self w) \<and>
   fst (report_errors self (snd (set_flood_sleep_threshold self v w)))
     = fst (report_errors self w) \<and>
   (\<forall>k. k \<noteq> ''_report_errors'' \<longrightarrow>
        attr_of (snd (set_report_errors self v w)) self k = attr_of w self k) \<and>
   (\<forall>k. k \<noteq> ''_flood_sleep_threshold'' \<longrightarrow>
        attr_of (snd (set_flood_sleep_threshold self v w)) self k = attr_of w self k) \<and>
   map_option cls (obj_at (snd (set_report_errors self v w)) self) = map_option cls (obj_at w self) \<and>
   map_option cls (obj_at (snd (set_flood_sleep_threshold self v w)) self)
     = map_option cls (obj_at w self)"
  by (auto simp add: set_report_errors_def set_flood_sleep_threshold_def report_errors_def
      flood_sleep_threshold_def getattr_ref setattr_ref attr_of_def obj_at_def
      split: option.splits)

theorem flag_setters_frame_witness:
  "fst (flood_sleep_threshold 0 (snd (set_report_errors 0 (PBool True) example_world)))
     = Inr (PInt 30) \<and>
   fst (report_errors 0 (snd (set_flood_sleep_threshold 0 (PInt 5) example_world)))
     = Inr (PBool False) \<and>
   attr_of (snd (set_report_errors 0 (PBool True) example_world)) 0 ''_auth_key''
     = Some (PStr ''key-of-dc-2'') \<and>
   attr_of (snd (set_flood_sleep_threshold 0 (PInt 5) example_world)) 0 ''_report_errors''
     = Some (PBool False)"
proof -
  have before: "fst (flood_sleep_threshold 0 example_world) = Inr (PInt 30)"
    "fst (report_errors 0 example_world) = Inr (PBool False)"
    by (simp_all add: report_errors_def flood_sleep_threshold_def getattr_ref example_world_def)
  have attrs: "attr_of example_world 0 ''_auth_key'' = Some (PStr ''key-of-dc-2'')"
    "attr_of example_world 0 ''_report_errors'' = Some (PBool False)"
    by (simp_all add: attr_of_def example_world_def)
  have ne: "''_auth_key'' \<noteq> ''_report_errors''" "''_report_errors'' \<noteq> ''_flood_sleep_threshold''"
    by simp_all
  from flag_setters_frame [of 0 "PBool True" example_world]
    flag_setters_frame [of 0 "PInt 5" example_world]
  show ?thesis using before attrs ne by metis
qed

end
